theory Spec2Isabelle
  imports Main "HOL-Library.Sublist"
begin

section \<open>Strings and characters\<close>

text \<open>
  Python strings are sequences of code points. A \<^typ>\<open>string\<close> here is a list of
  \<^typ>\<open>char\<close>, read as the code points 0 to 255 (Latin-1); code points above 255 are
  outside the model. Within that range \<open>\d\<close> is exactly \<open>0\<close> to \<open>9\<close>, and a letter of
  the ASCII alphabet has no case variant but its ASCII one.
\<close>

definition code :: "char \<Rightarrow> nat" where
  "code c = of_char c"

text \<open>\<open>str.lower\<close> and \<open>str.upper\<close>, character by character. The three code points
  below 256 whose upper case lies above 255 or is two characters long
  (181, 223, 255) are left as they are by \<open>upper_char\<close>.\<close>

definition lower_char :: "char \<Rightarrow> char" where
  "lower_char c =
     (let n = code c in
      if (65 \<le> n \<and> n \<le> 90) \<or> (192 \<le> n \<and> n \<le> 222 \<and> n \<noteq> 215)
      then char_of (n + 32) else c)"

definition upper_char :: "char \<Rightarrow> char" where
  "upper_char c =
     (let n = code c in
      if (97 \<le> n \<and> n \<le> 122) \<or> (224 \<le> n \<and> n \<le> 254 \<and> n \<noteq> 247)
      then char_of (n - 32) else c)"

definition lower :: "string \<Rightarrow> string" where
  "lower s = map lower_char s"

definition upper :: "string \<Rightarrow> string" where
  "upper s = map upper_char s"

text \<open>\<open>s.replace(a, b)\<close> for one-character \<open>a\<close> and \<open>b\<close>.\<close>

definition replace_char :: "char \<Rightarrow> char \<Rightarrow> string \<Rightarrow> string" where
  "replace_char a b s = map (\<lambda>c. if c = a then b else c) s"

text \<open>\<open>p in s\<close> on strings: \<open>p\<close> occurs in \<open>s\<close> as a contiguous substring.\<close>

fun contains :: "string \<Rightarrow> string \<Rightarrow> bool" where
  "contains p [] = (p = [])"
| "contains p (x # xs) = (prefix p (x # xs) \<or> contains p xs)"

text \<open>Truthiness of a Python string and of an optional string.\<close>

definition truthy :: "string option \<Rightarrow> bool" where
  "truthy v = (case v of None \<Rightarrow> False | Some s \<Rightarrow> s \<noteq> [])"

datatype error = ValueError | TypeError | IndexError | AttributeError | UserWarning

section \<open>Regular expressions of the \<open>re\<close> module\<close>

text \<open>
  The fragment of \<open>re\<close> the program uses, with the matching order of the library:
  a backtracking matcher that tries the alternatives of \<open>|\<close> from left to right,
  takes an optional part before skipping it, and lets \<open>*\<close> and \<open>+\<close> consume as
  much as they can before giving characters back.
\<close>

datatype cls =
    Lit char            \<comment> \<open>a literal character\<close>
  | Digit               \<comment> \<open>\<open>\d\<close>\<close>
  | Space               \<comment> \<open>\<open>\s\<close>\<close>
  | Dot                 \<comment> \<open>\<open>.\<close>: any character but newline\<close>
  | Range char char     \<comment> \<open>\<open>[a-b]\<close>\<close>

datatype rx =
    Eps
  | One cls
  | Many cls            \<comment> \<open>\<open>c*\<close>, greedy\<close>
  | Seq rx rx
  | Alt rx rx           \<comment> \<open>\<open>a|b\<close>\<close>
  | Opt rx              \<comment> \<open>\<open>a?\<close>, greedy\<close>
  | Grp nat rx          \<comment> \<open>capturing group number \<open>n\<close>\<close>
  | Bol                 \<comment> \<open>\<open>^\<close>\<close>
  | Eol                 \<comment> \<open>\<open>$\<close>\<close>

definition is_digit :: "char \<Rightarrow> bool" where
  "is_digit c = (48 \<le> code c \<and> code c \<le> 57)"

text \<open>The whitespace of \<open>\s\<close> on \<open>str\<close> patterns, below code point 256.\<close>

definition is_space :: "char \<Rightarrow> bool" where
  "is_space c =
     (let n = code c in
      (9 \<le> n \<and> n \<le> 13) \<or> (28 \<le> n \<and> n \<le> 32) \<or> n = 133 \<or> n = 160)"

definition in_range :: "char \<Rightarrow> char \<Rightarrow> char \<Rightarrow> bool" where
  "in_range a b c = (code a \<le> code c \<and> code c \<le> code b)"

text \<open>\<open>cmatch ic c x\<close>: character \<open>x\<close> matches class \<open>c\<close>; \<open>ic\<close> is the
  \<open>re.IGNORECASE\<close> flag.\<close>

fun cmatch :: "bool \<Rightarrow> cls \<Rightarrow> char \<Rightarrow> bool" where
  "cmatch ic (Lit p) x = (if ic then lower_char x = lower_char p else x = p)"
| "cmatch ic Digit x = is_digit x"
| "cmatch ic Space x = is_space x"
| "cmatch ic Dot x = (x \<noteq> CHR 0x0A)"
| "cmatch ic (Range a b) x =
     (in_range a b x \<or> (ic \<and> (in_range a b (lower_char x) \<or> in_range a b (upper_char x))))"

type_synonym groups = "(nat \<times> string) list"

text \<open>Greedy repetition of a character class: the longest run first, then shorter
  ones, until the rest of the pattern (the continuation \<open>k\<close>) matches.\<close>

fun many :: "(char \<Rightarrow> bool) \<Rightarrow> string \<Rightarrow> (string \<Rightarrow> 'a option) \<Rightarrow> 'a option" where
  "many p [] k = k []"
| "many p (x # xs) k =
     (if p x
      then (case many p xs k of Some v \<Rightarrow> Some v | None \<Rightarrow> k (x # xs))
      else k (x # xs))"

text \<open>\<open>rmatch ic s r rest g k\<close>: match \<open>r\<close> at the front of \<open>rest\<close>, a suffix of
  the subject \<open>s\<close>, with the groups \<open>g\<close> captured so far, and go on with \<open>k\<close>.\<close>

fun rmatch :: "bool \<Rightarrow> string \<Rightarrow> rx \<Rightarrow> string \<Rightarrow> groups
    \<Rightarrow> (string \<Rightarrow> groups \<Rightarrow> 'a option) \<Rightarrow> 'a option" where
  "rmatch ic s Eps rest g k = k rest g"
| "rmatch ic s (One c) rest g k =
     (case rest of [] \<Rightarrow> None | x # xs \<Rightarrow> if cmatch ic c x then k xs g else None)"
| "rmatch ic s (Many c) rest g k = many (cmatch ic c) rest (\<lambda>rest'. k rest' g)"
| "rmatch ic s (Seq a b) rest g k =
     rmatch ic s a rest g (\<lambda>rest' g'. rmatch ic s b rest' g' k)"
| "rmatch ic s (Alt a b) rest g k =
     (case rmatch ic s a rest g k of Some v \<Rightarrow> Some v | None \<Rightarrow> rmatch ic s b rest g k)"
| "rmatch ic s (Opt a) rest g k =
     (case rmatch ic s a rest g k of Some v \<Rightarrow> Some v | None \<Rightarrow> k rest g)"
| "rmatch ic s (Grp n a) rest g k =
     rmatch ic s a rest g
       (\<lambda>rest' g'. k rest' ((n, take (length rest - length rest') rest) # g'))"
| "rmatch ic s Bol rest g k = (if length rest = length s then k rest g else None)"
| "rmatch ic s Eol rest g k =
     (if rest = [] \<or> rest = [CHR 0x0A] then k rest g else None)"

text \<open>\<open>re.match\<close>: at the start of the subject only; the result is the unmatched rest
  and the groups. \<open>re.search\<close>: the first start position, from the left, that matches.\<close>

definition re_match :: "bool \<Rightarrow> rx \<Rightarrow> string \<Rightarrow> (string \<times> groups) option" where
  "re_match ic r s = rmatch ic s r s [] (\<lambda>rest g. Some (rest, g))"

fun search_from :: "bool \<Rightarrow> rx \<Rightarrow> string \<Rightarrow> string \<Rightarrow> groups option" where
  "search_from ic r s [] = rmatch ic s r [] [] (\<lambda>rest g. Some g)"
| "search_from ic r s (x # xs) =
     (case rmatch ic s r (x # xs) [] (\<lambda>rest g. Some g) of
        Some g \<Rightarrow> Some g
      | None \<Rightarrow> search_from ic r s xs)"

definition re_search :: "bool \<Rightarrow> rx \<Rightarrow> string \<Rightarrow> groups option" where
  "re_search ic r s = search_from ic r s s"

text \<open>\<open>m.group(n)\<close>: \<open>None\<close> for a group that took no part in the match.\<close>

definition group :: "groups \<Rightarrow> nat \<Rightarrow> string option" where
  "group g n = map_of g n"

text \<open>Pattern building: a literal string, \<open>c+\<close>, \<open>c{n}\<close>, a sequence.\<close>

definition lit :: "string \<Rightarrow> rx" where
  "lit s = foldr (\<lambda>c r. Seq (One (Lit c)) r) s Eps"

definition many1 :: "cls \<Rightarrow> rx" where
  "many1 c = Seq (One c) (Many c)"

definition exactly :: "nat \<Rightarrow> cls \<Rightarrow> rx" where
  "exactly n c = foldr Seq (replicate n (One c)) Eps"

definition seqs :: "rx list \<Rightarrow> rx" where
  "seqs rs = foldr Seq rs Eps"

section \<open>Dates: \<open>datetime.strptime(s, "%Y-%m-%d")\<close>\<close>

record date =
  year :: nat
  month :: nat
  day :: nat

text \<open>\<open>int(s)\<close> on a string of decimal digits.\<close>

definition int_of_digits :: "string \<Rightarrow> nat" where
  "int_of_digits s = foldl (\<lambda>n c. 10 * n + (code c - 48)) 0 s"

definition is_leap :: "nat \<Rightarrow> bool" where
  "is_leap y = (y mod 4 = 0 \<and> (y mod 100 \<noteq> 0 \<or> y mod 400 = 0))"

definition days_in_month :: "nat \<Rightarrow> nat \<Rightarrow> nat" where
  "days_in_month y m =
     (if m = 2 then (if is_leap y then 29 else 28)
      else if m = 4 \<or> m = 6 \<or> m = 9 \<or> m = 11 then 30 else 31)"

text \<open>The constructor \<open>datetime.date(y, m, d)\<close> raises \<open>ValueError\<close> outside the
  calendar.\<close>

definition datetime_date :: "nat \<Rightarrow> nat \<Rightarrow> nat \<Rightarrow> error + date" where
  "datetime_date y m d =
     (if 1 \<le> y \<and> y \<le> 9999 \<and> 1 \<le> m \<and> m \<le> 12 \<and> 1 \<le> d \<and> d \<le> days_in_month y m
      then Inr \<lparr>year = y, month = m, day = d\<rparr>
      else Inl ValueError)"

text \<open>The expression the library compiles the format \<open>%Y-%m-%d\<close> to:
  \<open>(\d\d\d\d)-(1[0-2]|0[1-9]|[1-9])-(3[0-1]|[1-2]\d|0[1-9]|[1-9]| [1-9])\<close>,
  matched with \<open>re.match\<close> under \<open>IGNORECASE\<close>.\<close>

definition strptime_regex :: rx where
  "strptime_regex = seqs
     [Grp 1 (exactly 4 Digit),
      One (Lit CHR ''-''),
      Grp 2 (Alt (Seq (One (Lit CHR ''1'')) (One (Range CHR ''0'' CHR ''2'')))
            (Alt (Seq (One (Lit CHR ''0'')) (One (Range CHR ''1'' CHR ''9'')))
                 (One (Range CHR ''1'' CHR ''9'')))),
      One (Lit CHR ''-''),
      Grp 3 (Alt (Seq (One (Lit CHR ''3'')) (One (Range CHR ''0'' CHR ''1'')))
            (Alt (Seq (One (Range CHR ''1'' CHR ''2'')) (One Digit))
            (Alt (Seq (One (Lit CHR ''0'')) (One (Range CHR ''1'' CHR ''9'')))
            (Alt (One (Range CHR ''1'' CHR ''9''))
                 (Seq (One (Lit CHR '' '')) (One (Range CHR ''1'' CHR ''9'')))))))]"

text \<open>\<open>strptime\<close> raises \<open>TypeError\<close> on \<open>None\<close>, and \<open>ValueError\<close> when the
  string does not match the format, when text is left after the match, and when the
  numbers are not a calendar date.\<close>

definition strptime :: "string option \<Rightarrow> error + date" where
  "strptime v =
     (case v of
        None \<Rightarrow> Inl TypeError
      | Some s \<Rightarrow>
          (case re_match True strptime_regex s of
             None \<Rightarrow> Inl ValueError
           | Some (rest, g) \<Rightarrow>
               if rest \<noteq> [] then Inl ValueError
               else (case (group g 1, group g 2, group g 3) of
                       (Some y, Some m, Some d) \<Rightarrow>
                         datetime_date (int_of_digits y)
                           (int_of_digits m)
                           (int_of_digits (filter is_digit d))
                     | _ \<Rightarrow> Inl ValueError)))"

text \<open>\<open>a > b\<close> on two dates.\<close>

definition date_gt :: "date \<Rightarrow> date \<Rightarrow> bool" where
  "date_gt a b =
     (year a > year b \<or> (year a = year b \<and>
       (month a > month b \<or> (month a = month b \<and> day a > day b))))"

section \<open>The artifact identifier: \<open>parse_testfile_name\<close>\<close>

definition pattern_star :: rx where
  "pattern_star =
     Seq (Opt (Grp 1 (Seq (lit ''Star_'') (many1 Digit)))) (Opt (One (Lit CHR ''_'')))"

definition pattern_module :: rx where
  "pattern_module = Grp 2 (Alt (lit ''rsu'') (Alt (lit ''hu'') (lit ''codd'')))"

definition pattern_release :: rx where
  "pattern_release =
     Grp 4 (seqs [One (Range CHR ''A'' CHR ''Z''), many1 Digit, One (Lit CHR ''.''),
                  many1 Digit])"

definition pattern_date :: rx where
  "pattern_date =
     Grp 5 (seqs [exactly 4 Digit, One (Lit CHR ''-''), exactly 2 Digit,
                  One (Lit CHR ''-''), exactly 2 Digit])"

definition pattern_version :: rx where
  "pattern_version =
     Grp 6 (seqs [One (Lit CHR ''v''), many1 Digit, One (Lit CHR ''.''), many1 Digit,
                  One (Lit CHR ''.''), many1 Digit, Opt (One (Lit CHR ''.'')),
                  Opt (One Digit)])"

definition pattern_full_release :: rx where
  "pattern_full_release =
     Grp 3 (seqs [pattern_release, One (Lit CHR ''_''), pattern_date,
                  One (Lit CHR ''_''), pattern_version])"

text \<open>The dot before \<open>xlsx\<close> is not escaped in the source: it is \<open>Dot\<close>.\<close>

definition pattern :: rx where
  "pattern = seqs
     [Bol, lit ''NTG7_Module_Test_'', pattern_star, pattern_module, One (Lit CHR ''_''),
      pattern_full_release, One Dot, lit ''xlsx'', Eol]"

record parsed =
  star :: "string option"
  module :: "string option"
  full_release :: "string option"
  release :: "string option"
  pdate :: date
  version :: "string option"

text \<open>\<open>None\<close> of the source is \<open>Inr None\<close>; an exception of \<open>strptime\<close> leaves
  the function as it is raised.\<close>

definition parse_testfile_name :: "string \<Rightarrow> error + parsed option" where
  "parse_testfile_name file_name =
     (case re_search True pattern file_name of
        None \<Rightarrow> Inr None
      | Some g \<Rightarrow>
          (case strptime (group g 5) of
             Inl e \<Rightarrow> Inl e
           | Inr d \<Rightarrow>
               Inr (Some \<lparr>star = group g 1, module = group g 2,
                          full_release = group g 3, release = group g 4,
                          pdate = d, version = group g 6\<rparr>)))"

section \<open>The label catalog: \<open>Confluence.get_current_labels\<close>\<close>

text \<open>The two expressions of the function, both compiled without flags:
  \<open>.*\s\(current\):$\<close> selects the paragraphs, and \<open>^(.*) \(current\).*$\<close> takes the
  name out of each selected paragraph.\<close>

definition current_filter :: rx where
  "current_filter = seqs [Many Dot, One Space, lit ''(current):'', Eol]"

definition current_name :: rx where
  "current_name = seqs [Bol, Grp 1 (Many Dot), lit '' (current)'', Many Dot, Eol]"

text \<open>The page enters as the \<open>.string\<close> of each of its \<open><p>\<close> elements, in document
  order (\<open>None\<close> for an element that is not a single string). \<open>find_all\<close> keeps the
  elements whose string the first expression finds with \<open>search\<close>.\<close>

definition tag_strings :: "string option list \<Rightarrow> string list" where
  "tag_strings ps =
     List.map_filter
       (\<lambda>p. case p of
              None \<Rightarrow> None
            | Some s \<Rightarrow> if re_search False current_filter s \<noteq> None then Some s else None)
       ps"

text \<open>\<open>re.search(pattern, value)[1].lower().replace("-", "_").replace(" ", "_")\<close>:
  subscripting \<open>None\<close> raises \<open>TypeError\<close>.\<close>

definition label_of :: "string \<Rightarrow> error + string" where
  "label_of v =
     (case re_search False current_name v of
        None \<Rightarrow> Inl TypeError
      | Some g \<Rightarrow>
          (case group g 1 of
             None \<Rightarrow> Inl AttributeError
           | Some n \<Rightarrow>
               Inr (replace_char CHR '' '' CHR ''_''
                     (replace_char CHR ''-'' CHR ''_'' (lower n)))))"

text \<open>A list comprehension whose element expression may raise: the first exception,
  from the left, ends it.\<close>

fun map_err :: "('a \<Rightarrow> error + 'b) \<Rightarrow> 'a list \<Rightarrow> error + 'b list" where
  "map_err f [] = Inr []"
| "map_err f (x # xs) =
     (case f x of
        Inl e \<Rightarrow> Inl e
      | Inr y \<Rightarrow> (case map_err f xs of Inl e \<Rightarrow> Inl e | Inr ys \<Rightarrow> Inr (y # ys)))"

definition get_current_labels :: "string option list \<Rightarrow> error + string list" where
  "get_current_labels ps =
     (case map_err label_of (tag_strings ps) of
        Inl e \<Rightarrow> Inl e
      | Inr labels \<Rightarrow> if labels = [] then Inl UserWarning else Inr labels)"

section \<open>The session: class \<open>Confluence\<close>\<close>

record attachment =
  title :: string
  ident :: string                         \<comment> \<open>the field \<open>id\<close>\<close>
  label_results :: "string list option"   \<comment> \<open>the label names under \<open>metadata.labels.results\<close>\<close>

record confluence =
  current_labels :: "string list"
  attachments :: "attachment list"
  attachment_titles :: "string list"

text \<open>\<open>__init__\<close>: the labels of the page and the attachment listing are fetched once;
  no other method assigns a field.\<close>

definition init :: "string option list \<Rightarrow> attachment list \<Rightarrow> error + confluence" where
  "init page listing =
     (case get_current_labels page of
        Inl e \<Rightarrow> Inl e
      | Inr labels \<Rightarrow>
          Inr \<lparr>current_labels = labels, attachments = listing,
               attachment_titles = map title listing\<rparr>)"

definition parse_attachment_labels :: "attachment \<Rightarrow> string list" where
  "parse_attachment_labels a = (case label_results a of None \<Rightarrow> [] | Some ls \<Rightarrow> ls)"

definition search_attachments_by_label :: "confluence \<Rightarrow> string list \<Rightarrow> attachment list" where
  "search_attachments_by_label self labels =
     filter (\<lambda>a. set labels \<subseteq> set (parse_attachment_labels a)) (attachments self)"

definition search_attachment_by_name :: "confluence \<Rightarrow> string \<Rightarrow> attachment option" where
  "search_attachment_by_name self name =
     (case filter (\<lambda>a. name = title a) (attachments self) of
        [] \<Rightarrow> None
      | a # _ \<Rightarrow> Some a)"

definition get_latest_labeled_attachments :: "confluence \<Rightarrow> string list" where
  "get_latest_labeled_attachments self =
     map title
       (concat (map (\<lambda>label. search_attachments_by_label self [label, ''latest''])
                    (current_labels self)))"

definition file_exists :: "confluence \<Rightarrow> string \<Rightarrow> bool" where
  "file_exists self file_name = (file_name \<in> set (attachment_titles self))"

text \<open>Subscripting the \<open>None\<close> that \<open>parse_testfile_name\<close> returns raises
  \<open>TypeError\<close>.\<close>

definition date_is_newer :: "string \<Rightarrow> string \<Rightarrow> error + bool" where
  "date_is_newer to_be_uploaded existing =
     (case parse_testfile_name to_be_uploaded of
        Inl e \<Rightarrow> Inl e
      | Inr None \<Rightarrow> Inl TypeError
      | Inr (Some p) \<Rightarrow>
          (case parse_testfile_name existing of
             Inl e \<Rightarrow> Inl e
           | Inr None \<Rightarrow> Inl TypeError
           | Inr (Some q) \<Rightarrow> Inr (date_gt (pdate p) (pdate q))))"

definition search_prefix :: "string option \<Rightarrow> string \<Rightarrow> string" where
  "search_prefix st m =
     ''NTG7_Module_Test_'' @ (case st of None \<Rightarrow> [] | Some s \<Rightarrow> if s = [] then [] else s @ ''_'')
       @ upper m"

text \<open>The loop over the latest titles keeps the last one that contains the prefix;
  the empty string is returned when there is none.\<close>

definition get_attachment_predecessor :: "confluence \<Rightarrow> string \<Rightarrow> error + string" where
  "get_attachment_predecessor self file_name =
     (case parse_testfile_name file_name of
        Inl e \<Rightarrow> Inl e
      | Inr None \<Rightarrow> Inl TypeError
      | Inr (Some parsed_file) \<Rightarrow>
          (case module parsed_file of
             None \<Rightarrow> Inl AttributeError
           | Some m \<Rightarrow>
               Inr (foldl (\<lambda>predecessor_file latest_attachment.
                            if contains (search_prefix (star parsed_file) m) latest_attachment
                            then latest_attachment else predecessor_file)
                      [] (get_latest_labeled_attachments self))))"

section \<open>The eligibility decision\<close>

text \<open>The function returns a truth value and prints one line before it; the line is
  kept as the reason of the verdict.\<close>

datatype reason =
  NAME_MISMATCH | ALREADY_EXISTS | PREDECESSOR_NEWER | NO_PREDECESSOR | NEWER_THAN_PREDECESSOR

fun printed :: "reason \<Rightarrow> string" where
  "printed NAME_MISMATCH = ''File name doesn't match the pattern''"
| "printed ALREADY_EXISTS = ''File exists''"
| "printed NO_PREDECESSOR = ''No predecessor''"
| "printed NEWER_THAN_PREDECESSOR = ''File is newer''"
| "printed PREDECESSOR_NEWER = ''Uploaded file is newer''"

definition file_eligible_for_upload :: "confluence \<Rightarrow> string \<Rightarrow> error + bool \<times> reason" where
  "file_eligible_for_upload self file_name =
     (case parse_testfile_name file_name of
        Inl e \<Rightarrow> Inl e
      | Inr None \<Rightarrow> Inr (False, NAME_MISMATCH)
      | Inr (Some _) \<Rightarrow>
          if file_exists self file_name then Inr (False, ALREADY_EXISTS)
          else
            (case get_attachment_predecessor self file_name of
               Inl e \<Rightarrow> Inl e
             | Inr predecessor_file \<Rightarrow>
                 if predecessor_file = [] then Inr (True, NO_PREDECESSOR)
                 else
                   (case date_is_newer file_name predecessor_file of
                      Inl e \<Rightarrow> Inl e
                    | Inr newer \<Rightarrow>
                        if newer then Inr (True, NEWER_THAN_PREDECESSOR)
                        else Inr (False, PREDECESSOR_NEWER))))"

section \<open>The promotion protocol\<close>

text \<open>The requests a promotion sends to the page store, in the order they are sent.
  The answers of the store are inputs of the model: the body of the upload response and
  the status codes of the label requests. The local file is taken to exist (the caller
  downloads it before the promotion), a request is taken to be answered, and the pause
  between two label requests is left out.\<close>

datatype request =
    Upload string                      \<comment> \<open>POST of the file \<open>downloads/<name>\<close>\<close>
  | LabelWrite string "string list"    \<comment> \<open>POST of labels to an attachment id\<close>
  | RemoveLabel string string          \<comment> \<open>DELETE of one label of an attachment id\<close>

fun is_label_write :: "request \<Rightarrow> bool" where
  "is_label_write (LabelWrite _ _) = True"
| "is_label_write _ = False"

text \<open>\<open>add_page_attachment\<close> returns \<open>response.json().get("results")[0].get("id")\<close>.
  The response enters as the value under \<open>results\<close> (\<open>None\<close> when the key is absent),
  each result as its \<open>id\<close> (\<open>None\<close> when it has none).\<close>

type_synonym upload_response = "string option list option"

definition add_page_attachment :: "upload_response \<Rightarrow> error + string option" where
  "add_page_attachment response =
     (case response of
        None \<Rightarrow> Inl TypeError
      | Some [] \<Rightarrow> Inl IndexError
      | Some (r # _) \<Rightarrow> Inr r)"

text \<open>The label service is a function from the number of label requests already sent
  to the status code of the next one. The loop of \<open>add_label\<close> counts only the answers
  500 and has no other exit, so it may run forever: \<open>fuel\<close> bounds the number of
  times its condition is tested, and \<open>None\<close> is a loop still running when the fuel is
  spent. The result is the last status code and the number of requests sent.\<close>

fun retry_loop :: "nat \<Rightarrow> (nat \<Rightarrow> nat) \<Rightarrow> nat \<Rightarrow> nat \<Rightarrow> nat \<Rightarrow> (nat \<times> nat) option" where
  "retry_loop 0 service sent retry status = None"
| "retry_loop (Suc fuel) service sent retry status =
     (if retry < 3
      then (let status' = service sent
            in retry_loop fuel service (sent + 1)
                 (if status' = 500 then retry + 1 else retry) status')
      else Some (status, sent))"

definition add_label ::
    "nat \<Rightarrow> (nat \<Rightarrow> nat) \<Rightarrow> string \<Rightarrow> string list \<Rightarrow> (bool \<times> request list) option" where
  "add_label fuel service attachment_id label_list =
     (case (if service 0 = 500 then retry_loop fuel service 1 0 (service 0)
            else Some (service 0, 1)) of
        None \<Rightarrow> None
      | Some (status, sent) \<Rightarrow>
          Some (status = 200, replicate sent (LabelWrite attachment_id label_list)))"

text \<open>The release-line label of a parsed name: the first active label that contains
  \<open>star\<close> when the name has the variant, the first that does not otherwise; indexing
  an empty list raises \<open>IndexError\<close>.\<close>

definition main_label :: "confluence \<Rightarrow> parsed \<Rightarrow> error + string" where
  "main_label self parsed_file_name =
     (case (if truthy (star parsed_file_name)
            then filter (\<lambda>label. contains ''star'' label) (current_labels self)
            else filter (\<lambda>label. \<not> contains ''star'' label) (current_labels self)) of
        [] \<Rightarrow> Inl IndexError
      | label # _ \<Rightarrow> Inr label)"

text \<open>An optional string inside an f-string.\<close>

definition fmt :: "string option \<Rightarrow> string" where
  "fmt v = (case v of None \<Rightarrow> ''None'' | Some s \<Rightarrow> s)"

text \<open>\<open>send_and_label_attachment\<close>. The result is \<open>None\<close> while the loop of
  \<open>add_label\<close> runs; otherwise it is how the call ended (\<open>Inr ()\<close> for a return,
  \<open>Inl e\<close> for an exception that leaves the function), the session afterwards, and the
  requests sent. No field of the session is assigned.\<close>

definition send_and_label_attachment ::
    "nat \<Rightarrow> confluence \<Rightarrow> upload_response \<Rightarrow> (nat \<Rightarrow> nat) \<Rightarrow> string
      \<Rightarrow> ((error + unit) \<times> confluence \<times> request list) option" where
  "send_and_label_attachment fuel self response service file_name =
     (case get_attachment_predecessor self file_name of
        Inl e \<Rightarrow> Some (Inl e, self, [])
      | Inr predecessor_name \<Rightarrow>
     (case add_page_attachment response of
        Inl e \<Rightarrow> Some (Inl e, self, [Upload file_name])
      | Inr attachment_id \<Rightarrow>
     if \<not> truthy attachment_id then Some (Inr (), self, [Upload file_name])
     else
     (case parse_testfile_name file_name of
        Inl e \<Rightarrow> Some (Inl e, self, [Upload file_name])
      | Inr None \<Rightarrow> Some (Inl TypeError, self, [Upload file_name])
      | Inr (Some parsed_file_name) \<Rightarrow>
     (case module parsed_file_name of
        None \<Rightarrow> Some (Inl AttributeError, self, [Upload file_name])
      | Some m \<Rightarrow>
     (case main_label self parsed_file_name of
        Inl e \<Rightarrow> Some (Inl e, self, [Upload file_name])
      | Inr ml \<Rightarrow>
     (case add_label fuel service (fmt attachment_id) [ml, lower m, ''latest''] of
        None \<Rightarrow> None
      | Some (label_was_added, writes) \<Rightarrow>
     if label_was_added \<and> predecessor_name \<noteq> []
     then
       (case search_attachment_by_name self predecessor_name of
          None \<Rightarrow> Some (Inl AttributeError, self, Upload file_name # writes)
        | Some predecessor \<Rightarrow>
            Some (Inr (), self,
                  Upload file_name # writes @ [RemoveLabel (ident predecessor) ''latest'']))
     else Some (Inr (), self, Upload file_name # writes)))))))"

section \<open>Example inputs\<close>

abbreviation rsu_march :: string where
  "rsu_march \<equiv> ''NTG7_Module_Test_RSU_E444.303_2023-03-29_v700.208.1.xlsx''"

abbreviation rsu_feb :: string where
  "rsu_feb \<equiv> ''NTG7_Module_Test_RSU_E444.300_2023-02-01_v700.200.0.xlsx''"


abbreviation rsu_feb30 :: string where
  "rsu_feb30 \<equiv> ''NTG7_Module_Test_RSU_E444.303_2023-02-30_v700.208.1.xlsx''"

abbreviation star_codd :: string where
  "star_codd \<equiv> ''NTG7_Module_Test_Star_2_codd_E444.303_2023-03-29_v700.208.1.xlsx''"

abbreviation old_rsu :: attachment where
  "old_rsu \<equiv> \<lparr>title = rsu_feb, ident = ''7'',
               label_results = Some [''fup4'', ''rsu'', ''latest'']\<rparr>"

abbreviation old_rsu_star_label :: attachment where
  "old_rsu_star_label \<equiv> \<lparr>title = rsu_feb, ident = ''7'',
               label_results = Some [''star2_fup4'', ''rsu'', ''latest'']\<rparr>"

abbreviation old_star_codd :: attachment where
  "old_star_codd \<equiv> \<lparr>title = star_codd, ident = ''9'',
               label_results = Some [''star2_fup4'', ''codd'', ''latest'']\<rparr>"

abbreviation star_page :: confluence where
  "star_page \<equiv> \<lparr>current_labels = [''star2_fup4'', ''fup4''], attachments = [old_star_codd],
                  attachment_titles = [star_codd]\<rparr>"

abbreviation one_latest :: confluence where
  "one_latest \<equiv> \<lparr>current_labels = [''star2_fup4'', ''fup4''], attachments = [old_rsu],
                  attachment_titles = [rsu_feb]\<rparr>"

abbreviation star_labelled :: confluence where
  "star_labelled \<equiv> \<lparr>current_labels = [''star2_fup4'', ''fup4''],
                     attachments = [old_rsu_star_label], attachment_titles = [rsu_feb]\<rparr>"

abbreviation empty_page :: confluence where
  "empty_page \<equiv> \<lparr>current_labels = [''fup4''], attachments = [], attachment_titles = []\<rparr>"

abbreviation parsed_rsu_march :: parsed where
  "parsed_rsu_march \<equiv>
     \<lparr>star = None, module = Some ''RSU'',
      full_release = Some ''E444.303_2023-03-29_v700.208.1'', release = Some ''E444.303'',
      pdate = \<lparr>year = 2023, month = 3, day = 29\<rparr>, version = Some ''v700.208.1''\<rparr>"

abbreviation parsed_star_codd :: parsed where
  "parsed_star_codd \<equiv>
     \<lparr>star = Some ''Star_2'', module = Some ''codd'',
      full_release = Some ''E444.303_2023-03-29_v700.208.1'', release = Some ''E444.303'',
      pdate = \<lparr>year = 2023, month = 3, day = 29\<rparr>, version = Some ''v700.208.1''\<rparr>"



section \<open>Auxiliary facts\<close>

lemma foldl_keep_last:
  "foldl (\<lambda>acc t. if P t then t else acc) a xs =
     (if filter P xs = [] then a else last (filter P xs))"
  by (induction xs arbitrary: a) auto

lemma retry_loop_runs_on:
  "\<forall>k\<ge>sent. service k \<noteq> 500 \<Longrightarrow> retry < 3 \<Longrightarrow>
     retry_loop fuel service sent retry status = None"
proof (induction fuel arbitrary: sent status)
  case 0
  show ?case by simp
next
  case (Suc fuel)
  have "service sent \<noteq> 500" using Suc.prems(1) by simp
  moreover have "\<forall>k\<ge>sent + 1. service k \<noteq> 500" using Suc.prems(1) by simp
  ultimately show ?case using Suc.IH [of "sent + 1"] Suc.prems(2) by (simp add: Let_def)
qed

lemma retry_loop_result:
  "retry_loop fuel service sent retry status = Some (st, n) \<Longrightarrow>
     1 \<le> sent \<Longrightarrow> status = service (sent - 1) \<Longrightarrow>
     sent \<le> n \<and> st = service (n - 1)"
proof (induction fuel arbitrary: sent retry status)
  case 0
  then show ?case by simp
next
  case (Suc fuel)
  show ?case
  proof (cases "retry < 3")
    case True
    then have "retry_loop fuel service (sent + 1)
        (if service sent = 500 then retry + 1 else retry) (service sent) = Some (st, n)"
      using Suc.prems(1) by (simp add: Let_def)
    from Suc.IH [OF this] show ?thesis by simp
  next
    case False
    then have "st = status" "n = sent" using Suc.prems(1) by simp_all
    then show ?thesis using Suc.prems(3) by simp
  qed
qed

lemma retry_loop_all_500:
  "\<forall>k. sent \<le> k \<and> k < sent + (3 - retry) \<longrightarrow> service k = 500 \<Longrightarrow>
     retry \<le> 3 \<Longrightarrow> 3 - retry < fuel \<Longrightarrow>
     retry_loop fuel service sent retry 500 = Some (500, sent + (3 - retry))"
proof (induction fuel arbitrary: sent retry)
  case 0
  then show ?case by simp
next
  case (Suc fuel)
  show ?case
  proof (cases "retry < 3")
    case True
    then have now: "service sent = 500" using Suc.prems(1) by simp
    have later: "\<forall>k. sent + 1 \<le> k \<and> k < sent + 1 + (3 - (retry + 1)) \<longrightarrow> service k = 500"
    proof (intro allI impI)
      fix k assume "sent + 1 \<le> k \<and> k < sent + 1 + (3 - (retry + 1))"
      then have "sent \<le> k \<and> k < sent + (3 - retry)" using True by arith
      then show "service k = 500" using Suc.prems(1) by blast
    qed
    have "retry_loop fuel service (sent + 1) (retry + 1) 500 =
            Some (500, sent + 1 + (3 - (retry + 1)))"
      using Suc.IH [OF later] True Suc.prems(3) by simp
    moreover have "sent + 1 + (3 - (retry + 1)) = sent + (3 - retry)"
      using True by simp
    ultimately show ?thesis using True now by (simp add: Let_def)
  next
    case False
    then show ?thesis by simp
  qed
qed

lemma retry_loop_four:
  assumes "\<forall>k<4. service k = 500" and "4 \<le> fuel"
  shows "retry_loop fuel service 1 0 500 = Some (500, 4)"
  using retry_loop_all_500 [of 1 0 service fuel] assms by simp

lemma add_label_result:
  assumes "add_label fuel service attachment_id label_list = Some (b, ws)"
  shows "\<exists>n\<ge>1. ws = replicate n (LabelWrite attachment_id label_list) \<and>
           b = (service (n - 1) = 200)"
proof (cases "service 0 = 500")
  case True
  then obtain st n where r: "retry_loop fuel service 1 0 (service 0) = Some (st, n)"
    and b: "b = (st = 200)" and ws: "ws = replicate n (LabelWrite attachment_id label_list)"
    using assms by (auto simp: add_label_def split: option.splits)
  from retry_loop_result [OF r] have "1 \<le> n \<and> st = service (n - 1)" by simp
  then show ?thesis using b ws by blast
next
  case False
  then have "ws = replicate 1 (LabelWrite attachment_id label_list)" "b = (service 0 = 200)"
    using assms by (auto simp: add_label_def)
  then show ?thesis by (intro exI [of _ 1]) simp
qed

lemma add_label_four:
  assumes "\<forall>k<4. service k = 500" and "4 \<le> fuel"
  shows "add_label fuel service attachment_id label_list =
           Some (False, replicate 4 (LabelWrite attachment_id label_list))"
proof -
  have "service 0 = 500" using assms(1) by simp
  then show ?thesis using retry_loop_four [OF assms] by (simp add: add_label_def)
qed

lemma latest_titles_subset:
  "set (get_latest_labeled_attachments self) \<subseteq> title ` set (attachments self)"
  by (auto simp: get_latest_labeled_attachments_def search_attachments_by_label_def)

lemma predecessor_is_attachment:
  assumes "get_attachment_predecessor self file_name = Inr pred" and "pred \<noteq> []"
  shows "pred \<in> title ` set (attachments self)"
proof -
  obtain P where "pred = (if filter P (get_latest_labeled_attachments self) = [] then []
      else last (filter P (get_latest_labeled_attachments self)))"
    using assms(1)
    by (auto simp: get_attachment_predecessor_def foldl_keep_last
        split: sum.splits option.splits)
  then have ne: "filter P (get_latest_labeled_attachments self) \<noteq> []"
    and "pred = last (filter P (get_latest_labeled_attachments self))"
    using assms(2) by (auto split: if_splits)
  then have "pred \<in> set (filter P (get_latest_labeled_attachments self))"
    using last_in_set by metis
  then show ?thesis using latest_titles_subset by auto
qed

lemma search_attachment_by_name_found:
  "name \<in> title ` set (attachments self) \<Longrightarrow>
     \<exists>a. search_attachment_by_name self name = Some a \<and> title a = name"
proof -
  assume "name \<in> title ` set (attachments self)"
  then have "filter (\<lambda>a. name = title a) (attachments self) \<noteq> []"
    by (auto simp: filter_empty_conv)
  then obtain a as where f: "filter (\<lambda>a. name = title a) (attachments self) = a # as"
    by (cases "filter (\<lambda>a. name = title a) (attachments self)") auto
  then have "a \<in> set (filter (\<lambda>a. name = title a) (attachments self))" by simp
  then have "title a = name" by simp
  then show ?thesis using f by (simp add: search_attachment_by_name_def)
qed


lemma predecessor_returns:
  "parse_testfile_name file_name = Inr (Some p) \<Longrightarrow> module p = Some m \<Longrightarrow>
     \<exists>pred. get_attachment_predecessor self file_name = Inr pred"
  by (simp add: get_attachment_predecessor_def)

lemma retry_loop_exit_status:
  "retry_loop fuel service sent retry status = Some (st, n) \<Longrightarrow>
     (3 \<le> retry \<longrightarrow> status = 500) \<Longrightarrow> st = 500"
proof (induction fuel arbitrary: sent retry status)
  case 0
  then show ?case by simp
next
  case (Suc fuel)
  show ?case
  proof (cases "retry < 3")
    case True
    let ?retry' = "if service sent = 500 then retry + 1 else retry"
    have call: "retry_loop fuel service (sent + 1) ?retry' (service sent) = Some (st, n)"
      using Suc.prems(1) True by (simp add: Let_def)
    have "3 \<le> ?retry' \<longrightarrow> service sent = 500"
      using True by simp
    with Suc.IH [OF call] show ?thesis by blast
  next
    case False
    then have "st = status" using Suc.prems(1) by simp
    then show ?thesis using False Suc.prems(2) by simp
  qed
qed

lemma add_label_true_only_at_once:
  assumes "add_label fuel service attachment_id label_list = Some (True, ws)"
  shows "service 0 = 200 \<and> ws = [LabelWrite attachment_id label_list]"
proof (cases "service 0 = 500")
  case True
  then obtain st n where r: "retry_loop fuel service 1 0 (service 0) = Some (st, n)"
    and st: "st = 200"
    using assms by (auto simp: add_label_def split: option.splits)
  have "st = 500" by (rule retry_loop_exit_status [OF r]) simp
  then show ?thesis using st by simp
next
  case False
  then show ?thesis using assms by (auto simp: add_label_def)
qed

lemma upload_returning_no_id_aborts:
  assumes "get_attachment_predecessor self file_name = Inr predecessor_name"
    and "add_page_attachment response = Inr attachment_id"
    and "\<not> truthy attachment_id"
  shows "send_and_label_attachment fuel self response service file_name =
           Some (Inr (), self, [Upload file_name])"
  using assms by (simp add: send_and_label_attachment_def)

text \<open>The search prefix holds the module in upper case, and the titles are searched as
  they are written: a title with the module in lower case is not found, not even for its
  own name.\<close>

lemma lower_case_module_finds_no_predecessor:
  "get_attachment_predecessor star_page star_codd = Inr []"
  by code_simp

lemma promotion_after_four_failures:
  assumes "\<forall>k<4. service k = 500" and "4 \<le> fuel"
  shows "\<exists>out trace. send_and_label_attachment fuel self response service file_name =
           Some (out, self, trace) \<and> (\<forall>i l. RemoveLabel i l \<notin> set trace)"
  by (auto simp: send_and_label_attachment_def add_label_four [OF assms]
      split: sum.splits option.splits)

lemma latest_labeled_by_labels:
  "get_latest_labeled_attachments self =
     concat (map (\<lambda>label. map title
                    (filter (\<lambda>a. label \<in> set (parse_attachment_labels a) \<and>
                                 ''latest'' \<in> set (parse_attachment_labels a))
                       (attachments self)))
                 (current_labels self))"
  by (simp add: get_latest_labeled_attachments_def search_attachments_by_label_def
      map_concat comp_def)

lemma map_err_length: "map_err f xs = Inr ys \<Longrightarrow> length ys = length xs"
  by (induction xs arbitrary: ys) (auto split: sum.splits)

lemma map_err_raised: "map_err f xs = Inl e \<Longrightarrow> \<exists>x \<in> set xs. f x = Inl e"
  by (induction xs) (auto split: sum.splits)

lemma label_of_not_UserWarning: "label_of v \<noteq> Inl UserWarning"
  by (simp add: label_of_def split: option.splits)

lemma get_current_labels_UserWarning_iff:
  "get_current_labels page = Inl UserWarning \<longleftrightarrow> tag_strings page = []"
proof
  assume "get_current_labels page = Inl UserWarning"
  then show "tag_strings page = []"
    using map_err_raised [of label_of "tag_strings page" UserWarning]
      map_err_length [of label_of "tag_strings page" "[]"] label_of_not_UserWarning
    by (auto simp: get_current_labels_def split: sum.splits if_splits)
next
  assume "tag_strings page = []"
  then show "get_current_labels page = Inl UserWarning"
    by (simp add: get_current_labels_def)
qed

lemma predecessor_one_latest: "get_attachment_predecessor one_latest rsu_march = Inr rsu_feb"
  by code_simp

text \<open>The example names, parsed.\<close>

lemma parse_rsu_march: "parse_testfile_name rsu_march = Inr (Some parsed_rsu_march)"
  by code_simp



lemma parse_star_codd: "parse_testfile_name star_codd = Inr (Some parsed_star_codd)"
  by code_simp


section \<open>The eligibility decision evaluates its rules in order\<close>



section \<open>Parsing a name whose date is not a calendar date\<close>

text \<open>
  C4. The claim is that \<open>parse_testfile_name\<close> never raises and returns \<open>None\<close> for
  a name whose date is not a calendar date. The name below matches the pattern, which
  asks for digits only, and \<open>strptime\<close> then raises \<open>ValueError\<close> on 30 February:
  the exception leaves \<open>parse_testfile_name\<close>.
\<close>

theorem parse_testfile_name_invalid_date_raises:
  "parse_testfile_name rsu_feb30 = Inl ValueError"
  by code_simp

section \<open>The retry loop of the label write\<close>

text \<open>
  C5. The claim is that the label write ends after at most four requests, whatever the
  status codes. When the first request is answered 500 and every later one 200, the
  loop of \<open>add_label\<close> never ends: an answer other than 500 neither counts as a retry
  nor leaves the loop. No amount of fuel makes \<open>add_label\<close> return.
\<close>

theorem add_label_never_returns:
  "add_label fuel (\<lambda>k. if k = 0 then 500 else 200) attachment_id label_list = None"
proof -
  let ?service = "\<lambda>k::nat. if k = 0 then 500 else (200::nat)"
  have "\<forall>k\<ge>1. ?service k \<noteq> 500" by simp
  then have "retry_loop fuel ?service 1 0 (?service 0) = None"
    by (rule retry_loop_runs_on) simp
  then show ?thesis by (simp add: add_label_def)
qed

section \<open>The date alone decides against a predecessor\<close>



section \<open>An upload that is answered without results\<close>

text \<open>
  C8. The claim is that an upload that yields no attachment id ends the promotion with a
  report and without an exception. When the answer to the upload has no \<open>results\<close>, or
  an empty list of them, the indexing inside \<open>add_page_attachment\<close> raises before the
  guard of \<open>send_and_label_attachment\<close> is reached: \<open>TypeError\<close> or \<open>IndexError\<close>
  leaves the promotion. No label request is sent.
\<close>

theorem failed_upload_raises:
  "send_and_label_attachment fuel one_latest None service rsu_march =
     Some (Inl TypeError, one_latest, [Upload rsu_march]) \<and>
   send_and_label_attachment fuel one_latest (Some []) service rsu_march =
     Some (Inl IndexError, one_latest, [Upload rsu_march])"
  by (simp add: send_and_label_attachment_def predecessor_one_latest add_page_attachment_def)

section \<open>Selecting the release-line label after the upload\<close>

text \<open>
  C10. After a successful upload the release-line label is the first active label that
  contains \<open>star\<close> when the parsed name has the variant, and the first that does not
  when it has none. The selection raises \<open>IndexError\<close> exactly when no active label
  is of the kind asked for, and then the exception leaves \<open>send_and_label_attachment\<close>
  with the upload already sent and no label written.
\<close>

theorem label_selection_index_error:
  assumes "parse_testfile_name file_name = Inr (Some p)"
    and "module p = Some m"
    and "add_page_attachment response = Inr attachment_id"
    and "truthy attachment_id"
  shows "(main_label self p = Inl IndexError \<longleftrightarrow>
            (if truthy (star p)
             then \<forall>label \<in> set (current_labels self). \<not> contains ''star'' label
             else \<forall>label \<in> set (current_labels self). contains ''star'' label)) \<and>
         (main_label self p = Inl IndexError \<longrightarrow>
            send_and_label_attachment fuel self response service file_name =
              Some (Inl IndexError, self, [Upload file_name]))"
proof -
  have sel: "main_label self p = Inl IndexError \<longleftrightarrow>
            (if truthy (star p)
             then \<forall>label \<in> set (current_labels self). \<not> contains ''star'' label
             else \<forall>label \<in> set (current_labels self). contains ''star'' label)"
  proof -
    have "main_label self p = Inl IndexError \<longleftrightarrow>
            (if truthy (star p)
             then filter (\<lambda>label. contains ''star'' label) (current_labels self) = []
             else filter (\<lambda>label. \<not> contains ''star'' label) (current_labels self) = [])"
      by (simp add: main_label_def split: list.splits)
    then show ?thesis by (simp add: filter_empty_conv)
  qed
  obtain pred where "get_attachment_predecessor self file_name = Inr pred"
    using predecessor_returns [OF assms(1,2)] by blast
  then have "main_label self p = Inl IndexError \<longrightarrow>
            send_and_label_attachment fuel self response service file_name =
              Some (Inl IndexError, self, [Upload file_name])"
    using assms by (simp add: send_and_label_attachment_def)
  with sel show ?thesis by blast
qed

theorem label_selection_index_error_witness:
  "send_and_label_attachment 5 (one_latest\<lparr>current_labels := [''star2_fup4'']\<rparr>)
       (Some [Some ''42'']) (\<lambda>k. 200) rsu_march =
     Some (Inl IndexError, one_latest\<lparr>current_labels := [''star2_fup4'']\<rparr>,
           [Upload rsu_march]) \<and>
   send_and_label_attachment 5 empty_page (Some [Some ''42'']) (\<lambda>k. 200) star_codd =
     Some (Inl IndexError, empty_page, [Upload star_codd])"
proof -
  have c: "contains ''star'' ''star2_fup4''" "\<not> contains ''star'' ''fup4''"
    by code_simp+
  have a: "send_and_label_attachment 5 (one_latest\<lparr>current_labels := [''star2_fup4'']\<rparr>)
       (Some [Some ''42'']) (\<lambda>k. 200) rsu_march =
     Some (Inl IndexError, one_latest\<lparr>current_labels := [''star2_fup4'']\<rparr>,
           [Upload rsu_march])"
    using label_selection_index_error [OF parse_rsu_march, of "''RSU''" "Some [Some ''42'']"
        "Some ''42''" "one_latest\<lparr>current_labels := [''star2_fup4'']\<rparr>" 5 "\<lambda>k. 200"] c
    by (simp add: add_page_attachment_def truthy_def)
  have b: "send_and_label_attachment 5 empty_page (Some [Some ''42'']) (\<lambda>k. 200) star_codd =
     Some (Inl IndexError, empty_page, [Upload star_codd])"
    using label_selection_index_error [OF parse_star_codd, of "''codd''" "Some [Some ''42'']"
        "Some ''42''" empty_page 5 "\<lambda>k. 200"] c
    by (simp add: add_page_attachment_def truthy_def)
  show ?thesis using a b by simp
qed

section \<open>Which attachments the predecessor is taken from\<close>

text \<open>
  C2, as stated: predecessor resolution considers only the attachments that carry the
  release-line label selected for the candidate. The code selects no label here. In the
  session below the only attachment carries \<open>star2_fup4\<close> and \<open>latest\<close>; the candidate
  has no variant, so its release-line label is \<open>fup4\<close>, which the attachment does not
  carry; the attachment is returned as the predecessor all the same.
\<close>

theorem predecessor_ignores_selected_label:
  "parse_testfile_name rsu_march = Inr (Some parsed_rsu_march) \<and>
   main_label star_labelled parsed_rsu_march = Inr ''fup4'' \<and>
   ''fup4'' \<notin> set (parse_attachment_labels old_rsu_star_label) \<and>
   get_attachment_predecessor star_labelled rsu_march = Inr (title old_rsu_star_label)"
  by code_simp

text \<open>
  C2, as amended. For a name that parses and whose module is written in upper case, the
  predecessor is taken from the titles of the attachments that carry \<open>latest\<close> together
  with any one of the active labels, label by label in the order of the active labels
  and, for one label, in the order of the attachment listing. Among these titles, those
  that contain the search prefix (the literal prefix, the variant followed by an
  underscore when there is one, and the module) qualify; the last of them is returned,
  and the empty string when none qualifies.
\<close>

theorem predecessor_is_last_latest_match:
  assumes "parse_testfile_name file_name = Inr (Some p)" and "module p = Some m"
    and "upper m = m"
  shows "get_attachment_predecessor self file_name =
           Inr (if filter (contains (''NTG7_Module_Test_''
                         @ (case star p of None \<Rightarrow> [] | Some s \<Rightarrow> if s = [] then [] else s @ ''_'')
                         @ m))
                     (get_latest_labeled_attachments self) = [] then []
                else last (filter (contains (''NTG7_Module_Test_''
                         @ (case star p of None \<Rightarrow> [] | Some s \<Rightarrow> if s = [] then [] else s @ ''_'')
                         @ m))
                     (get_latest_labeled_attachments self))) \<and>
         get_latest_labeled_attachments self =
           concat (map (\<lambda>label. map title
                          (filter (\<lambda>a. label \<in> set (parse_attachment_labels a) \<and>
                                       ''latest'' \<in> set (parse_attachment_labels a))
                             (attachments self)))
                       (current_labels self))"
proof -
  have "search_prefix (star p) m = ''NTG7_Module_Test_''
          @ (case star p of None \<Rightarrow> [] | Some s \<Rightarrow> if s = [] then [] else s @ ''_'') @ m"
    unfolding search_prefix_def assms(3) ..
  then have "get_attachment_predecessor self file_name =
           Inr (if filter (contains (''NTG7_Module_Test_''
                         @ (case star p of None \<Rightarrow> [] | Some s \<Rightarrow> if s = [] then [] else s @ ''_'')
                         @ m))
                     (get_latest_labeled_attachments self) = [] then []
                else last (filter (contains (''NTG7_Module_Test_''
                         @ (case star p of None \<Rightarrow> [] | Some s \<Rightarrow> if s = [] then [] else s @ ''_'')
                         @ m))
                     (get_latest_labeled_attachments self)))"
    using assms(1,2) by (simp add: get_attachment_predecessor_def foldl_keep_last)
  then show ?thesis using latest_labeled_by_labels [of self] by (rule conjI)
qed

theorem predecessor_is_last_latest_match_witness:
  "get_attachment_predecessor one_latest rsu_march = Inr rsu_feb \<and>
   get_attachment_predecessor empty_page rsu_march = Inr []"
proof -
  have m: "module parsed_rsu_march = Some ''RSU''" by simp
  have u: "upper ''RSU'' = ''RSU''" by code_simp
  have f1: "filter (contains (''NTG7_Module_Test_''
                @ (case star parsed_rsu_march of None \<Rightarrow> []
                   | Some s \<Rightarrow> if s = [] then [] else s @ ''_'')
                @ ''RSU''))
              (get_latest_labeled_attachments one_latest) = [rsu_feb]"
    by code_simp
  have f2: "filter (contains (''NTG7_Module_Test_''
                @ (case star parsed_rsu_march of None \<Rightarrow> []
                   | Some s \<Rightarrow> if s = [] then [] else s @ ''_'')
                @ ''RSU''))
              (get_latest_labeled_attachments empty_page) = []"
    by code_simp
  note t1 = predecessor_is_last_latest_match
    [OF parse_rsu_march m u, where self = one_latest, THEN conjunct1]
  note t2 = predecessor_is_last_latest_match
    [OF parse_rsu_march m u, where self = empty_page, THEN conjunct1]
  have a: "get_attachment_predecessor one_latest rsu_march = Inr rsu_feb"
    unfolding t1 f1 by simp
  have b: "get_attachment_predecessor empty_page rsu_march = Inr []"
    unfolding t2 f2 by simp
  show ?thesis using a b by (rule conjI)
qed

section \<open>When the predecessor loses its \<open>latest\<close> label\<close>

text \<open>
  C6. The claim is that the predecessor loses \<open>latest\<close> if and only if the label write
  succeeded in the end and a predecessor was resolved. In the session below a predecessor
  is resolved and the label service answers 500, 500, 200, 500, 500. The third request
  writes the labels, but the loop of \<open>add_label\<close> goes on until it has counted three
  answers 500 and returns on the last of them: the promotion ends after five label
  requests with the labels written and without a request that removes \<open>latest\<close> from
  the predecessor.
\<close>

theorem label_written_on_retry_never_demotes:
  "get_attachment_predecessor one_latest rsu_march = Inr rsu_feb \<and>
   send_and_label_attachment 5 one_latest (Some [Some ''42''])
       (\<lambda>k. if k = 2 then 200 else 500) rsu_march =
     Some (Inr (), one_latest,
           [Upload rsu_march,
            LabelWrite ''42'' [''fup4'', ''rsu'', ''latest''],
            LabelWrite ''42'' [''fup4'', ''rsu'', ''latest''],
            LabelWrite ''42'' [''fup4'', ''rsu'', ''latest''],
            LabelWrite ''42'' [''fup4'', ''rsu'', ''latest''],
            LabelWrite ''42'' [''fup4'', ''rsu'', ''latest'']])"
  by code_simp

section \<open>Submitting the same file name again\<close>

text \<open>
  C7. The claim is that a file name submitted again after its upload, in the same
  session, is rejected with \<open>ALREADY_EXISTS\<close>. The promotion assigns no field of the
  session, so the cached titles do not hold the uploaded name: on a page without
  attachments the promotion of the example name ends well, the session afterwards is
  the session before, and in it the same name is accepted again with
  \<open>NO_PREDECESSOR\<close>.
\<close>

theorem resubmission_same_session_accepted:
  "send_and_label_attachment 1 empty_page (Some [Some ''42'']) (\<lambda>k. 200) rsu_march =
     Some (Inr (), empty_page,
           [Upload rsu_march, LabelWrite ''42'' [''fup4'', ''rsu'', ''latest'']]) \<and>
   file_eligible_for_upload empty_page rsu_march = Inr (True, NO_PREDECESSOR)"
  by code_simp

section \<open>The label catalog on a page with a match\<close>

text \<open>
  C9. The claim is that \<open>get_current_labels\<close> fails only when no paragraph matches,
  and returns the normalized names otherwise. The paragraph below has a tab before
  \<open>(current):\<close>. The first expression accepts it (\<open>\s\<close>), so there is one match; the
  second expression asks for a space at that place and finds nothing, and subscripting
  its result raises \<open>TypeError\<close>.
\<close>

theorem get_current_labels_raises_on_a_match:
  "tag_strings [Some (''Star2 FUP4'' @ [CHR 0x09] @ ''(current):'')] =
     [''Star2 FUP4'' @ [CHR 0x09] @ ''(current):''] \<and>
   get_current_labels [Some (''Star2 FUP4'' @ [CHR 0x09] @ ''(current):'')] = Inl TypeError"
  by code_simp

end
